theory Spec2Isabelle
  imports Main "HOL-Library.Multiset"
begin

section \<open>The offline mailbox: table \<open>messages\<close> and \<open>MessageModel\<close>\<close>

text \<open>
  The mailbox is the PostgreSQL table \<open>messages\<close> declared in \<open>config/schema.sql\<close>:
  \<^verbatim>\<open>
  CREATE TABLE messages (
    id SERIAL PRIMARY KEY,
    sender_id INTEGER REFERENCES users(id) ON DELETE CASCADE,
    recipient_id INTEGER REFERENCES users(id) ON DELETE CASCADE,
    encrypted_content TEXT NOT NULL,
    is_delivered BOOLEAN DEFAULT FALSE,
    created_at TIMESTAMP WITH TIME ZONE DEFAULT CURRENT_TIMESTAMP,
    delivered_at TIMESTAMP WITH TIME ZONE
  );
  \<close>
  A row is a record with exactly these columns (they are also the fields of the
  TypeScript interface \<open>Message\<close>). A timestamp counts microseconds, the resolution of
  PostgreSQL; every statement that reads \<open>CURRENT_TIMESTAMP\<close> takes it as the argument
  \<open>now\<close>.
\<close>

type_synonym timestamp = nat

record message =
  id_col :: int
  sender_id :: int
  recipient_id :: int
  encrypted_content :: string
  is_delivered :: bool
  created_at :: timestamp
  delivered_at :: "timestamp option"

text \<open>
  The database state the mailbox depends on: the ids present in table \<open>users\<close> (the two
  foreign keys of \<open>messages\<close> point there), the rows of \<open>messages\<close> in the order they
  were inserted, and the sequence behind \<open>id SERIAL\<close>.
\<close>

record database =
  users :: "int set"
  messages :: "message list"
  messages_id_seq :: int

text \<open>
  A rejected promise of \<open>pool.query\<close> is a value: the ways a statement of
  \<open>MessageModel\<close> is refused by the schema of \<open>schema.sql\<close>. A parameter bound to an
  INTEGER column must be a 32-bit integer, one bound to a TEXT column must not contain the
  NUL character, the sequence of \<open>id SERIAL\<close> ends at the largest 32-bit integer, a
  foreign key must point to a row, and a column named by a statement must exist.
\<close>

datatype db_error =
    Undefined_column string
  | Foreign_key_violation string
  | Numeric_value_out_of_range string
  | Character_not_in_repertoire string
  | Sequence_generator_limit_exceeded string

definition int4 :: "int \<Rightarrow> bool" where
  "int4 n = (- 2147483648 \<le> n \<and> n \<le> 2147483647)"

definition messages_columns :: "string list" where
  "messages_columns =
     [''id'', ''sender_id'', ''recipient_id'', ''encrypted_content'',
      ''is_delivered'', ''created_at'', ''delivered_at'']"

text \<open>
  \<^verbatim>\<open>INSERT INTO messages (sender_id, recipient_id, encrypted_content)
  VALUES ($1, $2, $3) RETURNING *\<close>
  The three parameters are checked when they are bound, in their order, before the
  statement runs. Then the defaults fill \<open>id\<close> (the next value of the sequence, refused
  past its end), \<open>is_delivered\<close> and \<open>created_at\<close>; \<open>delivered_at\<close> is NULL. Last, the
  insert is refused when sender or recipient is no row of \<open>users\<close>; the sequence value
  is consumed all the same.
\<close>

definition new_row :: "int \<Rightarrow> timestamp \<Rightarrow> int \<Rightarrow> int \<Rightarrow> string \<Rightarrow> message" where
  "new_row i now senderId recipientId encryptedContent =
     \<lparr>id_col = i, sender_id = senderId, recipient_id = recipientId,
      encrypted_content = encryptedContent, is_delivered = False, created_at = now,
      delivered_at = None\<rparr>"

definition storeMessage ::
  "timestamp \<Rightarrow> int \<Rightarrow> int \<Rightarrow> string \<Rightarrow> database \<Rightarrow> (db_error + message) \<times> database" where
  "storeMessage now senderId recipientId encryptedContent d =
     (if int4 senderId = False then (Inl (Numeric_value_out_of_range ''$1''), d)
      else if int4 recipientId = False then (Inl (Numeric_value_out_of_range ''$2''), d)
      else if CHR 0x00 \<in> set encryptedContent
        then (Inl (Character_not_in_repertoire ''$3''), d)
      else if int4 (messages_id_seq d) = False
        then (Inl (Sequence_generator_limit_exceeded ''messages_id_seq''), d)
      else
        (let row = new_row (messages_id_seq d) now senderId recipientId encryptedContent;
             d' = d\<lparr>messages_id_seq := messages_id_seq d + 1\<rparr>
         in if senderId \<notin> users d
              then (Inl (Foreign_key_violation ''messages_sender_id_fkey''), d')
            else if recipientId \<notin> users d
              then (Inl (Foreign_key_violation ''messages_recipient_id_fkey''), d')
            else (Inr row, d'\<lparr>messages := messages d @ [row]\<rparr>)))"

text \<open>
  \<^verbatim>\<open>SELECT * FROM messages
  WHERE recipient_id = $1 AND is_delivered = false
  ORDER BY created_at ASC\<close>
  PostgreSQL leaves the order of rows with equal \<open>created_at\<close> open; the model keeps
  them in insertion order (a stable sort).
\<close>

definition getUndeliveredMessages :: "int \<Rightarrow> database \<Rightarrow> message list" where
  "getUndeliveredMessages userId d =
     sort_key created_at
       (filter (\<lambda>m. recipient_id m = userId \<and> is_delivered m = False) (messages d))"

text \<open>
  \<^verbatim>\<open>UPDATE messages SET c1 = ..., c2 = ... WHERE ...\<close>
  PostgreSQL refuses the statement, before it looks at any row, when a column of the
  SET list is not a column of the table; otherwise every row the WHERE clause selects is
  assigned and \<open>rowCount\<close> is their number.
\<close>

definition sql_update ::
  "string list \<Rightarrow> (message \<Rightarrow> bool) \<Rightarrow> (message \<Rightarrow> message) \<Rightarrow> database
     \<Rightarrow> (db_error + nat) \<times> database" where
  "sql_update set_columns where_clause assign d =
     (case filter (\<lambda>c. c \<notin> set messages_columns) set_columns of
        c # _ \<Rightarrow> (Inl (Undefined_column c), d)
      | [] \<Rightarrow>
          (Inr (length (filter where_clause (messages d))),
           d\<lparr>messages := map (\<lambda>m. if where_clause m then assign m else m) (messages d)\<rparr>))"

text \<open>
  \<^verbatim>\<open>if (messageIds.length === 0) return 0;
  UPDATE messages SET is_delivered = true, delivered_at = CURRENT_TIMESTAMP
  WHERE id IN (...messageIds)\<close>
\<close>

definition markAsDelivered ::
  "timestamp \<Rightarrow> int list \<Rightarrow> database \<Rightarrow> (db_error + nat) \<times> database" where
  "markAsDelivered now messageIds d =
     (if length messageIds = 0 then (Inr 0, d)
      else sql_update [''is_delivered'', ''delivered_at'']
             (\<lambda>m. id_col m \<in> set messageIds)
             (\<lambda>m. m\<lparr>is_delivered := True, delivered_at := Some now\<rparr>) d)"

text \<open>
  \<^verbatim>\<open>if (messageIds.length === 0) return 0;
  UPDATE messages SET is_read = true, read_at = CURRENT_TIMESTAMP
  WHERE id IN (...messageIds) AND recipient_id = $userId\<close>
  Neither \<open>is_read\<close> nor \<open>read_at\<close> is a column of the table of \<open>schema.sql\<close> (nor a
  field of \<open>Message\<close>), so the assignment touches no column of the row record.
\<close>

definition markAsRead ::
  "timestamp \<Rightarrow> int list \<Rightarrow> int \<Rightarrow> database \<Rightarrow> (db_error + nat) \<times> database" where
  "markAsRead now messageIds userId d =
     (if length messageIds = 0 then (Inr 0, d)
      else sql_update [''is_read'', ''read_at'']
             (\<lambda>m. id_col m \<in> set messageIds \<and> recipient_id m = userId)
             (\<lambda>m. m) d)"

text \<open>
  \<^verbatim>\<open>DELETE FROM messages
  WHERE is_delivered = true AND delivered_at < NOW() - INTERVAL '${days} days'\<close>
  A row whose \<open>delivered_at\<close> is NULL is never selected.
\<close>

definition day_length :: int where
  "day_length = 86400000000"

definition cleanupOldMessages :: "timestamp \<Rightarrow> int \<Rightarrow> database \<Rightarrow> nat \<times> database" where
  "cleanupOldMessages now days d =
     (let old = (\<lambda>m. is_delivered m \<and>
                   (case delivered_at m of
                      None \<Rightarrow> False
                    | Some t \<Rightarrow> int t < int now - days * day_length))
      in (length (filter old (messages d)),
          d\<lparr>messages := filter (\<lambda>m. \<not> old m) (messages d)\<rparr>))"

section \<open>The relay: registry, presence store, websocket handlers\<close>

text \<open>
  A websocket object is known by its identity (\<open>client.ws === ws\<close>). JSON values are the
  \<open>any\<close>-typed payload parts; \<open>truthy\<close> is JavaScript's \<open>!!v\<close> on them.
\<close>

type_synonym socket = nat

datatype json =
    JNull
  | JBool bool
  | JNum int
  | JStr string
  | JArr "json list"
  | JObj "(string \<times> json) list"

fun truthy :: "json \<Rightarrow> bool" where
  "truthy JNull = False"
| "truthy (JBool b) = b"
| "truthy (JNum n) = (n \<noteq> 0)"
| "truthy (JStr s) = (s \<noteq> [])"
| "truthy (JArr xs) = True"
| "truthy (JObj kvs) = True"

text \<open>\<open>interface WebSocketClient { userId: number; ws: WS }\<close>\<close>

record WebSocketClient =
  userId :: int
  ws :: socket

text \<open>
  \<open>interface SignalMessage { type; recipient: number; data: any }\<close>, also the shape the
  websocket handler reads from a signal payload, and
  \<open>interface ChatMessage { recipient: number; encryptedContent: string; timestamp: number }\<close>.
\<close>

record SignalMessage =
  type_field :: string
  recipient :: int
  data :: json

record ChatMessage =
  chat_recipient :: int
  encryptedContent :: string
  chat_timestamp :: int

text \<open>
  The frames the server sends, each the object given to \<open>JSON.stringify\<close>:
  \<^item> \<open>Error_frame m\<close>: \<open>{type: 'error', payload: {message: m}}\<close>
  \<^item> \<open>Connect_frame u\<close>: \<open>{type: 'connect', payload: {success: true, userId: u}}\<close>
  \<^item> \<open>Presence_frame u st\<close>: \<open>{type: 'presence', payload: {userId: u, status: st}}\<close>
  \<^item> \<open>Signal_frame sender type data\<close>: \<open>{type: 'signal', payload: {sender, type, data}}\<close>
  \<^item> \<open>Message_frame sender content ts\<close>:
    \<open>{type: 'message', payload: {sender, encryptedContent, timestamp}}\<close>
  \<^item> \<open>Delivered_frame r ts\<close>: \<open>{type: 'message', payload: {delivered: true, recipient, timestamp}}\<close>
  \<^item> \<open>Stored_frame r ts\<close>: \<open>{type: 'message', payload: {stored: true, recipient, timestamp}}\<close>
  \<^item> \<open>Pending_frame ms\<close>: \<open>{type: 'message', payload: {pendingMessages: ms}}\<close>, each entry
    \<open>(id, sender, content, timestamp)\<close>.
\<close>

type_synonym pending_message = "int \<times> int \<times> string \<times> timestamp"

datatype frame =
    Error_frame string
  | Connect_frame int
  | Presence_frame int string
  | Signal_frame int string json
  | Message_frame int string int
  | Delivered_frame int int
  | Stored_frame int int
  | Pending_frame "pending_message list"

text \<open>
  The presence store: Redis keys \<open>presence:${userId}\<close>, each with its string value and the
  seconds it has left to live when one was set (\<open>SET\<close> clears it, \<open>EXPIRE\<close> sets it).
\<close>

datatype redis_key = presence_key int

record redis_entry =
  redis_value :: string
  ttl :: "nat option"

text \<open>
  The effects of the server on the world outside a handler, in the order they are issued:
  changes of the \<open>clients\<close> array, Redis commands, frames sent and sockets closed, and the
  calls of \<open>MessageModel\<close>.
\<close>

datatype event =
    Clients_register int socket
  | Clients_remove socket
  | Redis_set redis_key string
  | Redis_expire redis_key nat
  | Ws_send socket frame
  | Ws_close socket
  | Call_storeMessage int int string
  | Call_getUndeliveredMessages int
  | Call_markAsDelivered "int list"
  | Call_markAsRead "int list" int

record server =
  clients :: "WebSocketClient list"
  redis :: "redis_key \<Rightarrow> redis_entry option"
  db :: database
  trace :: "event list"

definition emit :: "event \<Rightarrow> server \<Rightarrow> server" where
  "emit e s = s\<lparr>trace := trace s @ [e]\<rparr>"

definition ws_send :: "socket \<Rightarrow> frame \<Rightarrow> server \<Rightarrow> server" where
  "ws_send w f s = emit (Ws_send w f) s"

definition ws_close :: "socket \<Rightarrow> server \<Rightarrow> server" where
  "ws_close w s = emit (Ws_close w) s"

definition redis_set :: "redis_key \<Rightarrow> string \<Rightarrow> server \<Rightarrow> server" where
  "redis_set k v s =
     emit (Redis_set k v) (s\<lparr>redis := (redis s)(k := Some \<lparr>redis_value = v, ttl = None\<rparr>)\<rparr>)"

definition redis_expire :: "redis_key \<Rightarrow> nat \<Rightarrow> server \<Rightarrow> server" where
  "redis_expire k secs s =
     emit (Redis_expire k secs)
       (case redis s k of
          None \<Rightarrow> s
        | Some e \<Rightarrow> s\<lparr>redis := (redis s)(k := Some (e\<lparr>ttl := Some secs\<rparr>))\<rparr>)"

definition redis_get :: "redis_key \<Rightarrow> server \<Rightarrow> string option" where
  "redis_get k s = map_option redis_value (redis s k)"

text \<open>
  \<^verbatim>\<open>clients = clients.filter(client => client.userId !== userId);
  clients.push({ userId, ws });\<close>
  and \<^verbatim>\<open>clients = clients.filter(c => c.ws !== ws);\<close>
\<close>

definition register :: "int \<Rightarrow> socket \<Rightarrow> WebSocketClient list \<Rightarrow> WebSocketClient list" where
  "register uid w cs = filter (\<lambda>client. userId client \<noteq> uid) cs @ [\<lparr>userId = uid, ws = w\<rparr>]"

definition unregister :: "socket \<Rightarrow> WebSocketClient list \<Rightarrow> WebSocketClient list" where
  "unregister w cs = filter (\<lambda>c. ws c \<noteq> w) cs"

definition clients_register :: "int \<Rightarrow> socket \<Rightarrow> server \<Rightarrow> server" where
  "clients_register uid w s = emit (Clients_register uid w) (s\<lparr>clients := register uid w (clients s)\<rparr>)"

definition clients_remove :: "socket \<Rightarrow> server \<Rightarrow> server" where
  "clients_remove w s = emit (Clients_remove w) (s\<lparr>clients := unregister w (clients s)\<rparr>)"

text \<open>The calls of \<open>MessageModel\<close> on the server's database.\<close>

definition call_storeMessage ::
  "timestamp \<Rightarrow> int \<Rightarrow> int \<Rightarrow> string \<Rightarrow> server \<Rightarrow> (db_error + message) \<times> server" where
  "call_storeMessage now senderId recipientId content s =
     (case storeMessage now senderId recipientId content (db s) of
        (r, d') \<Rightarrow> (r, emit (Call_storeMessage senderId recipientId content) (s\<lparr>db := d'\<rparr>)))"

definition call_getUndeliveredMessages :: "int \<Rightarrow> server \<Rightarrow> message list \<times> server" where
  "call_getUndeliveredMessages uid s =
     (getUndeliveredMessages uid (db s), emit (Call_getUndeliveredMessages uid) s)"

definition call_markAsDelivered ::
  "timestamp \<Rightarrow> int list \<Rightarrow> server \<Rightarrow> (db_error + nat) \<times> server" where
  "call_markAsDelivered now ids s =
     (case markAsDelivered now ids (db s) of
        (r, d') \<Rightarrow> (r, emit (Call_markAsDelivered ids) (s\<lparr>db := d'\<rparr>)))"

definition call_markAsRead ::
  "timestamp \<Rightarrow> int list \<Rightarrow> int \<Rightarrow> server \<Rightarrow> (db_error + nat) \<times> server" where
  "call_markAsRead now ids uid s =
     (case markAsRead now ids uid (db s) of
        (r, d') \<Rightarrow> (r, emit (Call_markAsRead ids uid) (s\<lparr>db := d'\<rparr>)))"

text \<open>\<open>clients.forEach(client => client.ws.send(presence frame))\<close>\<close>

definition broadcastPresence :: "int \<Rightarrow> string \<Rightarrow> server \<Rightarrow> server" where
  "broadcastPresence uid status s =
     fold (\<lambda>client. ws_send (ws client) (Presence_frame uid status)) (clients s) s"

definition pending_of :: "message \<Rightarrow> pending_message" where
  "pending_of msg = (id_col msg, sender_id msg, encrypted_content msg, created_at msg)"

text \<open>
  \<open>handleConnect(ws, payload)\<close>. \<open>verifyToken\<close> (\<open>utils/jwt\<close>) is a parameter: it gives the
  user id of a valid token and None (\<open>null\<close>) otherwise. The \<open>catch\<close> of the handler is
  the \<open>Inl\<close> branch of the only call that can be rejected.
\<close>

definition handleConnect ::
  "(string \<Rightarrow> int option) \<Rightarrow> timestamp \<Rightarrow> socket \<Rightarrow> string \<Rightarrow> server \<Rightarrow> server" where
  "handleConnect verifyToken now w token s =
     (case verifyToken token of
        None \<Rightarrow> ws_close w (ws_send w (Error_frame ''Invalid token'') s)
      | Some uid \<Rightarrow>
          (let s1 = clients_register uid w s;
               s2 = redis_set (presence_key uid) ''online'' s1;
               s3 = redis_expire (presence_key uid) 60 s2;
               s4 = ws_send w (Connect_frame uid) s3;
               s5 = broadcastPresence uid ''online'' s4;
               (undeliveredMessages, s6) = call_getUndeliveredMessages uid s5
           in if length undeliveredMessages > 0 then
                (let s7 = ws_send w (Pending_frame (map pending_of undeliveredMessages)) s6
                 in case call_markAsDelivered now (map id_col undeliveredMessages) s7 of
                      (Inr n, s8) \<Rightarrow> s8
                    | (Inl e, s8) \<Rightarrow> ws_close w (ws_send w (Error_frame ''Connection error'') s8))
              else s6))"

text \<open>
  \<open>handleDisconnect(ws)\<close>, with the state after each of its statements: the Redis write is
  awaited, so the states in between are the ones other handlers run in.
\<close>

definition handleDisconnect_states :: "socket \<Rightarrow> server \<Rightarrow> server list" where
  "handleDisconnect_states w s =
     (case find (\<lambda>client. ws client = w) (clients s) of
        None \<Rightarrow> [s]
      | Some client \<Rightarrow>
          (let s1 = redis_set (presence_key (userId client)) ''offline'' s;
               s2 = clients_remove w s1;
               s3 = broadcastPresence (userId client) ''offline'' s2
           in [s, s1, s2, s3]))"

definition handleDisconnect :: "socket \<Rightarrow> server \<Rightarrow> server" where
  "handleDisconnect w s = last (handleDisconnect_states w s)"

text \<open>\<open>handleSignal(ws, payload)\<close>\<close>

definition handleSignal :: "socket \<Rightarrow> SignalMessage \<Rightarrow> server \<Rightarrow> server" where
  "handleSignal w payload s =
     (case find (\<lambda>client. ws client = w) (clients s) of
        None \<Rightarrow> ws_send w (Error_frame ''Not authenticated'') s
      | Some sender \<Rightarrow>
          (case find (\<lambda>client. userId client = recipient payload) (clients s) of
             Some rcpt \<Rightarrow>
               ws_send (ws rcpt)
                 (Signal_frame (userId sender) (type_field payload) (data payload)) s
           | None \<Rightarrow> ws_send w (Error_frame ''Recipient is offline'') s))"

text \<open>\<open>handleMessage(ws, payload)\<close>\<close>

definition handleMessage :: "timestamp \<Rightarrow> socket \<Rightarrow> ChatMessage \<Rightarrow> server \<Rightarrow> server" where
  "handleMessage now w payload s =
     (case find (\<lambda>client. ws client = w) (clients s) of
        None \<Rightarrow> ws_send w (Error_frame ''Not authenticated'') s
      | Some sender \<Rightarrow>
          (case find (\<lambda>client. userId client = chat_recipient payload) (clients s) of
             Some rcpt \<Rightarrow>
               ws_send w (Delivered_frame (chat_recipient payload) (chat_timestamp payload))
                 (ws_send (ws rcpt)
                    (Message_frame (userId sender) (encryptedContent payload)
                       (chat_timestamp payload)) s)
           | None \<Rightarrow>
               (case call_storeMessage now (userId sender) (chat_recipient payload)
                       (encryptedContent payload) s of
                  (Inr m, s1) \<Rightarrow>
                    ws_send w (Stored_frame (chat_recipient payload) (chat_timestamp payload)) s1
                | (Inl e, s1) \<Rightarrow> ws_send w (Error_frame ''Failed to store message'') s1)))"

text \<open>
  The \<open>message\<close> listener of a socket: the frame decoded by \<open>JSON.parse\<close> (None when it
  throws) is dispatched on its \<open>type\<close>. The \<open>close\<close> listener is \<open>handleDisconnect\<close>.
\<close>

datatype inbound =
    In_connect string
  | In_disconnect
  | In_signal SignalMessage
  | In_message ChatMessage
  | In_other string

definition on_message ::
  "(string \<Rightarrow> int option) \<Rightarrow> timestamp \<Rightarrow> socket \<Rightarrow> inbound option \<Rightarrow> server \<Rightarrow> server" where
  "on_message verifyToken now w msg s =
     (case msg of
        None \<Rightarrow> ws_send w (Error_frame ''Invalid message format'') s
      | Some (In_connect token) \<Rightarrow> handleConnect verifyToken now w token s
      | Some In_disconnect \<Rightarrow> handleDisconnect w s
      | Some (In_signal payload) \<Rightarrow> handleSignal w payload s
      | Some (In_message payload) \<Rightarrow> handleMessage now w payload s
      | Some (In_other t) \<Rightarrow> ws_send w (Error_frame ''Unknown message type'') s)"

text \<open>One round of \<open>startPresenceHeartbeat\<close>, and \<open>isUserOnline\<close>.\<close>

definition presenceHeartbeat :: "server \<Rightarrow> server" where
  "presenceHeartbeat s =
     fold (\<lambda>client s'. redis_expire (presence_key (userId client)) 60
                        (redis_set (presence_key (userId client)) ''online'' s'))
       (clients s) s"

definition isUserOnline :: "int \<Rightarrow> server \<Rightarrow> bool" where
  "isUserOnline uid s = (redis_get (presence_key uid) s = Some ''online'')"

section \<open>The HTTP controllers on the same state\<close>

text \<open>
  A response is its status code and its JSON body:
  \<^item> \<open>Message_body m\<close>: \<open>{message: m}\<close>
  \<^item> \<open>Signals_body xs\<close>: \<open>{signals: xs}\<close>, each entry \<open>(id, sender, type, data, timestamp)\<close>,
    where \<open>type\<close> and \<open>data\<close> are None when the stored object has no such property
  \<^item> \<open>Messages_body ms\<close>: \<open>{success: true, data: {messages: ms}, message: ...}\<close>
  \<^item> \<open>Success_body m\<close>: \<open>{success: true, message: m}\<close>
  \<^item> \<open>Failure_body e\<close>: \<open>{success: false, error: e}\<close>
\<close>

type_synonym pending_signal = "int \<times> int \<times> json option \<times> json option \<times> timestamp"

datatype http_body =
    Message_body string
  | Signals_body "pending_signal list"
  | Messages_body "pending_message list"
  | Success_body string
  | Failure_body string

type_synonym response = "nat \<times> http_body"

text \<open>
  \<open>SignalController.sendSignal\<close>; \<open>senderId\<close> is \<open>req.user.id\<close>, \<open>signalData\<close> is
  \<open>req.body\<close>, and \<open>JSON.stringify\<close> is the parameter \<open>stringify\<close>. The \<open>catch\<close> of the
  controller is the \<open>Inl\<close> branch.
\<close>

definition sendSignal ::
  "(json \<Rightarrow> string) \<Rightarrow> timestamp \<Rightarrow> int \<Rightarrow> SignalMessage \<Rightarrow> server \<Rightarrow> response \<times> server" where
  "sendSignal stringify now senderId signalData s =
     (if recipient signalData = 0 \<or> type_field signalData = [] \<or> \<not> truthy (data signalData)
      then ((400, Message_body ''Recipient, type, and data are required''), s)
      else
        (case find (\<lambda>client. userId client = recipient signalData) (clients s) of
           Some recipientClient \<Rightarrow>
             ((200, Message_body ''Signal sent successfully''),
              ws_send (ws recipientClient)
                (Signal_frame senderId (type_field signalData) (data signalData)) s)
         | None \<Rightarrow>
             if type_field signalData \<noteq> ''ice-candidate'' then
               (case call_storeMessage now senderId (recipient signalData)
                       (stringify (JObj [(''type'', JStr ''signal''),
                                         (''signalType'', JStr (type_field signalData)),
                                         (''data'', data signalData)])) s of
                  (Inr m, s1) \<Rightarrow>
                    ((202, Message_body ''Recipient offline, signal queued for delivery''), s1)
                | (Inl e, s1) \<Rightarrow> ((500, Message_body ''Server error''), s1))
             else ((202, Message_body ''Recipient offline, signal queued for delivery''), s)))"

text \<open>
  The \<open>map\<close> callback of \<open>getPendingSignals\<close>: \<open>JSON.parse\<close> is the parameter \<open>parse\<close>
  (None when it throws). Reading \<open>content.type\<close> throws on \<open>null\<close> and is \<open>undefined\<close> on
  every other value that is not an object; all of these end in \<open>null\<close>, which the
  \<open>filter\<close> drops.
\<close>

definition signal_of :: "(string \<Rightarrow> json option) \<Rightarrow> message \<Rightarrow> pending_signal option" where
  "signal_of parse msg =
     (case parse (encrypted_content msg) of
        Some (JObj content) \<Rightarrow>
          if map_of content ''type'' = Some (JStr ''signal'')
          then Some (id_col msg, sender_id msg, map_of content ''signalType'',
                     map_of content ''data'', created_at msg)
          else None
      | _ \<Rightarrow> None)"

definition getPendingSignals ::
  "(string \<Rightarrow> json option) \<Rightarrow> timestamp \<Rightarrow> int \<Rightarrow> server \<Rightarrow> response \<times> server" where
  "getPendingSignals parse now uid s =
     (let (msgs, s1) = call_getUndeliveredMessages uid s;
          signals = List.map_filter (signal_of parse) msgs
      in if length signals > 0 then
           (case call_markAsDelivered now (map fst signals) s1 of
              (Inr n, s2) \<Rightarrow> ((200, Signals_body signals), s2)
            | (Inl e, s2) \<Rightarrow> ((500, Message_body ''Server error''), s2))
         else ((200, Signals_body signals), s1))"

text \<open>\<open>MessageController.getOfflineMessages\<close>\<close>

definition getOfflineMessages :: "timestamp \<Rightarrow> int \<Rightarrow> server \<Rightarrow> response \<times> server" where
  "getOfflineMessages now uid s =
     (let (msgs, s1) = call_getUndeliveredMessages uid s
      in if length msgs > 0 then
           (case call_markAsDelivered now (map id_col msgs) s1 of
              (Inr n, s2) \<Rightarrow> ((200, Messages_body (map pending_of msgs)), s2)
            | (Inl e, s2) \<Rightarrow> ((500, Failure_body ''Failed to retrieve offline messages''), s2))
         else ((200, Messages_body (map pending_of msgs)), s1))"

text \<open>
  \<open>MessageController.markMessagesAsRead\<close>; \<open>messageIds\<close> is None when the body has no
  array under that name.
\<close>

definition markMessagesAsRead ::
  "timestamp \<Rightarrow> int \<Rightarrow> int list option \<Rightarrow> server \<Rightarrow> response \<times> server" where
  "markMessagesAsRead now uid messageIds s =
     (case messageIds of
        None \<Rightarrow> ((400, Failure_body ''Message IDs are required''), s)
      | Some ids \<Rightarrow>
          (case call_markAsRead now ids uid s of
             (Inr n, s1) \<Rightarrow> ((200, Success_body ''Messages marked as read''), s1)
           | (Inl e, s1) \<Rightarrow> ((500, Failure_body ''Failed to mark messages as read''), s1)))"

section \<open>Runs\<close>

text \<open>
  The states of the server process: it starts with \<open>clients = []\<close>, and every listener,
  heartbeat round and controller call runs from a state reached before. The states
  inside \<open>handleDisconnect\<close> are states too. PostgreSQL and Redis are services outside
  the process: their contents may change between two handlers (the other controllers of
  the repository, the expiry of a key), the \<open>clients\<close> array may not.
\<close>

inductive reachable :: "server \<Rightarrow> bool" where
  start: "clients s = [] \<Longrightarrow> reachable s"
| message: "reachable s \<Longrightarrow> reachable (on_message verifyToken now w msg s)"
| close: "reachable s \<Longrightarrow> s' \<in> set (handleDisconnect_states w s) \<Longrightarrow> reachable s'"
| heartbeat: "reachable s \<Longrightarrow> reachable (presenceHeartbeat s)"
| http_sendSignal:
    "reachable s \<Longrightarrow> reachable (snd (sendSignal stringify now senderId signalData s))"
| http_getPendingSignals: "reachable s \<Longrightarrow> reachable (snd (getPendingSignals parse now uid s))"
| http_getOfflineMessages: "reachable s \<Longrightarrow> reachable (snd (getOfflineMessages now uid s))"
| http_markMessagesAsRead:
    "reachable s \<Longrightarrow> reachable (snd (markMessagesAsRead now uid messageIds s))"
| database: "reachable s \<Longrightarrow> reachable (s\<lparr>db := d\<rparr>)"
| presence_store: "reachable s \<Longrightarrow> reachable (s\<lparr>redis := r\<rparr>)"

text \<open>Any later use of the mailbox: a sequence of \<open>MessageModel\<close> calls.\<close>

datatype mailbox_op =
    Op_storeMessage timestamp int int string
  | Op_markAsDelivered timestamp "int list"
  | Op_markAsRead timestamp "int list" int
  | Op_cleanupOldMessages timestamp int

fun apply_op :: "mailbox_op \<Rightarrow> database \<Rightarrow> database" where
  "apply_op (Op_storeMessage now a b c) d = snd (storeMessage now a b c d)"
| "apply_op (Op_markAsDelivered now ids) d = snd (markAsDelivered now ids d)"
| "apply_op (Op_markAsRead now ids uid) d = snd (markAsRead now ids uid d)"
| "apply_op (Op_cleanupOldMessages now days) d = snd (cleanupOldMessages now days d)"

definition apply_ops :: "mailbox_op list \<Rightarrow> database \<Rightarrow> database" where
  "apply_ops ops d = fold apply_op ops d"

text \<open>The primary key: ids are pairwise distinct and below the sequence.\<close>

definition primary_key :: "database \<Rightarrow> bool" where
  "primary_key d =
     (distinct (map id_col (messages d)) \<and> list_all (\<lambda>m. id_col m < messages_id_seq d) (messages d))"

text \<open>
  The ids \<open>ids\<close> are settled in a table when every row that carries one of them is
  delivered and the sequence is past all of them.
\<close>

definition settled :: "int list \<Rightarrow> database \<Rightarrow> bool" where
  "settled ids d =
     (list_all (\<lambda>m. id_col m \<notin> set ids \<or> is_delivered m) (messages d) \<and>
      list_all (\<lambda>i. i < messages_id_seq d) ids)"

section \<open>Example states\<close>

definition hello_row :: message where
  "hello_row = \<lparr>id_col = 1, sender_id = 1, recipient_id = 2,
                 encrypted_content = ''hello'', is_delivered = False,
                 created_at = 5, delivered_at = None\<rparr>"

definition hello_mailbox :: database where
  "hello_mailbox = \<lparr>users = {1, 2, 3}, messages = [hello_row], messages_id_seq = 2\<rparr>"

definition empty_mailbox :: database where
  "empty_mailbox = \<lparr>users = {1, 2, 3}, messages = [], messages_id_seq = 1\<rparr>"

definition no_presence :: "redis_key \<Rightarrow> redis_entry option" where
  "no_presence = (\<lambda>k. None)"

text \<open>User 1 is connected on socket 10; users 2 and 3 are not connected.\<close>

definition one_online :: server where
  "one_online = \<lparr>clients = [\<lparr>userId = 1, ws = 10\<rparr>],
                  redis = no_presence(presence_key 1 := Some \<lparr>redis_value = ''online'', ttl = Some 60\<rparr>),
                  db = empty_mailbox, trace = []\<rparr>"

text \<open>Nobody is connected; the mailbox holds "hello" from 1 for 2.\<close>

definition hello_waiting :: server where
  "hello_waiting = \<lparr>clients = [], redis = no_presence, db = hello_mailbox, trace = []\<rparr>"

definition token_table :: "string \<Rightarrow> int option" where
  "token_table t = (if t = ''token-2'' then Some 2 else if t = ''token-7'' then Some 7 else None)"

text \<open>Users 1 and 3 are connected, on sockets 10 and 30.\<close>

definition two_online :: server where
  "two_online = \<lparr>clients = [\<lparr>userId = 1, ws = 10\<rparr>, \<lparr>userId = 3, ws = 30\<rparr>],
                  redis = no_presence(presence_key 1 := Some \<lparr>redis_value = ''online'', ttl = Some 60\<rparr>,
                                      presence_key 3 := Some \<lparr>redis_value = ''online'', ttl = Some 60\<rparr>),
                  db = empty_mailbox, trace = []\<rparr>"

text \<open>The mailbox also holds a stored signal for user 2, next to "hello".\<close>

definition offer_row :: message where
  "offer_row = \<lparr>id_col = 2, sender_id = 3, recipient_id = 2,
                 encrypted_content = ''{signal}'', is_delivered = False,
                 created_at = 6, delivered_at = None\<rparr>"

definition mixed_waiting :: server where
  "mixed_waiting = \<lparr>clients = [], redis = no_presence,
     db = \<lparr>users = {1, 2, 3}, messages = [hello_row, offer_row], messages_id_seq = 3\<rparr>,
     trace = []\<rparr>"

definition example_parse :: "string \<Rightarrow> json option" where
  "example_parse text =
     (if text = ''{signal}''
      then Some (JObj [(''type'', JStr ''signal''), (''signalType'', JStr ''offer''),
                       (''data'', JStr ''sdp'')])
      else None)"

text \<open>User 7 connects on socket 20 and then again on socket 21.\<close>

definition connect_twice :: server where
  "connect_twice =
     on_message token_table 6 21 (Some (In_connect ''token-7''))
       (on_message token_table 5 20 (Some (In_connect ''token-7'')) hello_waiting)"

text \<open>Payloads and a serialiser for the examples.\<close>

definition offer_to_2 :: SignalMessage where
  "offer_to_2 = \<lparr>type_field = ''offer'', recipient = 2, data = JStr ''sdp''\<rparr>"

definition candidate_to_2 :: SignalMessage where
  "candidate_to_2 = \<lparr>type_field = ''ice-candidate'', recipient = 2, data = JStr ''candidate''\<rparr>"

definition hello_to_2 :: ChatMessage where
  "hello_to_2 = \<lparr>chat_recipient = 2, encryptedContent = ''hello'', chat_timestamp = 5\<rparr>"

definition example_stringify :: "json \<Rightarrow> string" where
  "example_stringify v = ''{}''"

section \<open>The mailbox statements\<close>

lemma sql_update_ok:
  assumes "set set_columns \<subseteq> set messages_columns"
  shows "sql_update set_columns wc asg d =
     (Inr (length (filter wc (messages d))),
      d\<lparr>messages := map (\<lambda>m. if wc m then asg m else m) (messages d)\<rparr>)"
proof -
  from assms have "filter (\<lambda>c. c \<notin> set messages_columns) set_columns = []"
    by (auto simp: filter_empty_conv)
  then show ?thesis by (simp add: sql_update_def)
qed

lemma markAsDelivered_eq:
  "markAsDelivered now ids d =
     (Inr (length (filter (\<lambda>m. id_col m \<in> set ids) (messages d))),
      d\<lparr>messages := map (\<lambda>m. if id_col m \<in> set ids
                               then m\<lparr>is_delivered := True, delivered_at := Some now\<rparr>
                               else m) (messages d)\<rparr>)"
proof (cases "ids = []")
  case True
  then show ?thesis by (simp add: markAsDelivered_def)
next
  case False
  then show ?thesis
    by (simp add: markAsDelivered_def sql_update_ok messages_columns_def)
qed

lemma markAsRead_eq:
  "ids \<noteq> [] \<Longrightarrow> markAsRead now ids uid d = (Inl (Undefined_column ''is_read''), d)"
  by (simp add: markAsRead_def sql_update_def messages_columns_def)

lemma markAsRead_frame: "snd (markAsRead now ids uid d) = d"
  by (cases "ids = []") (simp_all add: markAsRead_eq, simp add: markAsRead_def)

lemma insort_key_snoc:
  "f a \<le> f x \<Longrightarrow> insort_key f a (ys @ [x]) = insort_key f a ys @ [x]"
  by (induction ys) auto

lemma sort_key_snoc:
  "\<forall>y\<in>set xs. f y \<le> f x \<Longrightarrow> sort_key f (xs @ [x]) = sort_key f xs @ [x]"
  by (induction xs) (auto simp: insort_key_snoc)

lemma storeMessage_ok:
  "int4 a \<Longrightarrow> int4 r \<Longrightarrow> CHR 0x00 \<notin> set c \<Longrightarrow> int4 (messages_id_seq d) \<Longrightarrow>
   a \<in> users d \<Longrightarrow> r \<in> users d \<Longrightarrow>
   storeMessage t a r c d =
     (Inr (new_row (messages_id_seq d) t a r c),
      d\<lparr>messages_id_seq := messages_id_seq d + 1,
        messages := messages d @ [new_row (messages_id_seq d) t a r c]\<rparr>)"
  by (simp add: storeMessage_def Let_def)

lemma storeMessage_Inr:
  assumes "storeMessage t a r c d = (Inr m, d')"
  shows "m = new_row (messages_id_seq d) t a r c"
    and "d' = d\<lparr>messages_id_seq := messages_id_seq d + 1, messages := messages d @ [m]\<rparr>"
  using assms by (auto simp: storeMessage_def Let_def split: if_splits)

lemma getUndelivered_store:
  assumes "storeMessage t a r c d = (Inr m, d')"
    and "\<forall>old\<in>set (getUndeliveredMessages r d). created_at old \<le> t"
  shows "getUndeliveredMessages r d' = getUndeliveredMessages r d @ [m]"
proof -
  note m = storeMessage_Inr(1) [OF assms(1)]
  have d': "messages d' = messages d @ [m]"
    by (subst storeMessage_Inr(2) [OF assms(1)]) simp
  have p: "recipient_id m = r" "is_delivered m = False" "created_at m = t"
    by (simp_all add: m new_row_def)
  let ?old = "filter (\<lambda>x. recipient_id x = r \<and> is_delivered x = False) (messages d)"
  have "\<forall>y\<in>set ?old. created_at y \<le> created_at m"
    using assms(2) by (simp add: getUndeliveredMessages_def p)
  then have "sort_key created_at (?old @ [m]) = sort_key created_at ?old @ [m]"
    by (rule sort_key_snoc)
  then show ?thesis
    by (simp add: getUndeliveredMessages_def d' p)
qed

lemma messages_update_eq:
  "(d\<lparr>messages := xs\<rparr> = d\<lparr>messages := ys\<rparr>) = (xs = ys)"
proof
  assume "d\<lparr>messages := xs\<rparr> = d\<lparr>messages := ys\<rparr>"
  then have "messages (d\<lparr>messages := xs\<rparr>) = messages (d\<lparr>messages := ys\<rparr>)"
    by (rule arg_cong)
  then show "xs = ys" by simp
next
  assume "xs = ys"
  then show "d\<lparr>messages := xs\<rparr> = d\<lparr>messages := ys\<rparr>" by simp
qed

lemma stamp_eq:
  "(m\<lparr>is_delivered := True, delivered_at := Some t2\<rparr> =
    m\<lparr>is_delivered := True, delivered_at := Some t1\<rparr>) = (t2 = t1)" for m :: message
proof
  assume "m\<lparr>is_delivered := True, delivered_at := Some t2\<rparr> =
    m\<lparr>is_delivered := True, delivered_at := Some t1\<rparr>"
  then have "delivered_at (m\<lparr>is_delivered := True, delivered_at := Some t2\<rparr>) =
    delivered_at (m\<lparr>is_delivered := True, delivered_at := Some t1\<rparr>)"
    by (rule arg_cong)
  then show "t2 = t1" by simp
next
  assume "t2 = t1"
  then show "m\<lparr>is_delivered := True, delivered_at := Some t2\<rparr> =
    m\<lparr>is_delivered := True, delivered_at := Some t1\<rparr>" by simp
qed

lemma markAsDelivered_same:
  "(snd (markAsDelivered t2 ids (snd (markAsDelivered t1 ids d))) = snd (markAsDelivered t1 ids d)) =
     (t2 = t1 \<or> filter (\<lambda>m. id_col m \<in> set ids) (messages d) = [])"
proof -
  let ?f = "\<lambda>t m. if id_col m \<in> set ids
                   then m\<lparr>is_delivered := True, delivered_at := Some t\<rparr> else m"
  have twice: "snd (markAsDelivered t2 ids (snd (markAsDelivered t1 ids d))) =
      d\<lparr>messages := map (?f t2) (messages d)\<rparr>"
    by (simp add: markAsDelivered_eq o_def)
  have once: "snd (markAsDelivered t1 ids d) = d\<lparr>messages := map (?f t1) (messages d)\<rparr>"
    by (simp add: markAsDelivered_eq)
  have "(map (?f t2) (messages d) = map (?f t1) (messages d)) =
      (\<forall>m\<in>set (messages d). ?f t2 m = ?f t1 m)"
    by (rule map_eq_conv)
  also have "\<dots> = (\<forall>m\<in>set (messages d). id_col m \<in> set ids \<longrightarrow> t2 = t1)"
    by (simp add: stamp_eq)
  also have "\<dots> = (t2 = t1 \<or> filter (\<lambda>m. id_col m \<in> set ids) (messages d) = [])"
    by (auto simp: filter_empty_conv)
  finally have maps: "(map (?f t2) (messages d) = map (?f t1) (messages d)) =
      (t2 = t1 \<or> filter (\<lambda>m. id_col m \<in> set ids) (messages d) = [])" .
  show ?thesis
    by (subst twice, subst once, subst messages_update_eq) (rule maps)
qed

subsection \<open>Marking delivered twice\<close>

text \<open>
  C2, as stated, fails: the UPDATE of \<open>markAsDelivered\<close> has no guard on \<open>is_delivered\<close>,
  so a second call at a later time stamps \<open>delivered_at\<close> again. The row "hello" is marked
  at time 10 and again at time 20: its \<open>delivered_at\<close> is 10 after the first call and 20
  after the second.
\<close>

theorem C2_counterexample:
  "map delivered_at (messages (snd (markAsDelivered 10 [1] hello_mailbox))) = [Some 10] \<and>
   map delivered_at
     (messages (snd (markAsDelivered 20 [1] (snd (markAsDelivered 10 [1] hello_mailbox))))) =
     [Some 20]"
  by (simp add: markAsDelivered_eq hello_mailbox_def hello_row_def)

text \<open>
  C2, amended: a second \<open>markAsDelivered\<close> with the same ids raises no error and returns
  the same count; it changes nothing but \<open>delivered_at\<close> of the rows with these ids, which
  becomes the time of the second call, so the state after both calls is the state after
  the second alone. It is identical to the state after the first exactly when both calls
  read the same time or no row has one of these ids. On an empty id list the call returns
  0 and changes nothing.
\<close>

theorem C2_markAsDelivered_twice:
  "fst (markAsDelivered t2 ids (snd (markAsDelivered t1 ids d))) = fst (markAsDelivered t1 ids d) \<and>
   \<not> isl (fst (markAsDelivered t1 ids d)) \<and>
   messages (snd (markAsDelivered t2 ids (snd (markAsDelivered t1 ids d)))) =
     map (\<lambda>m. if id_col m \<in> set ids then m\<lparr>delivered_at := Some t2\<rparr> else m)
       (messages (snd (markAsDelivered t1 ids d))) \<and>
   snd (markAsDelivered t2 ids (snd (markAsDelivered t1 ids d))) = snd (markAsDelivered t2 ids d) \<and>
   snd (markAsDelivered t1 ids (snd (markAsDelivered t1 ids d))) = snd (markAsDelivered t1 ids d) \<and>
   (snd (markAsDelivered t2 ids (snd (markAsDelivered t1 ids d))) = snd (markAsDelivered t1 ids d)) =
     (t2 = t1 \<or> filter (\<lambda>m. id_col m \<in> set ids) (messages d) = []) \<and>
   markAsDelivered t1 [] d = (Inr 0, d)"
proof (intro conjI)
  show "fst (markAsDelivered t2 ids (snd (markAsDelivered t1 ids d))) =
      fst (markAsDelivered t1 ids d)"
    by (simp add: markAsDelivered_eq o_def)
  show "\<not> isl (fst (markAsDelivered t1 ids d))"
    by (simp add: markAsDelivered_eq)
  show "messages (snd (markAsDelivered t2 ids (snd (markAsDelivered t1 ids d)))) =
     map (\<lambda>m. if id_col m \<in> set ids then m\<lparr>delivered_at := Some t2\<rparr> else m)
       (messages (snd (markAsDelivered t1 ids d)))"
    by (simp add: markAsDelivered_eq o_def)
  show "snd (markAsDelivered t2 ids (snd (markAsDelivered t1 ids d))) =
      snd (markAsDelivered t2 ids d)"
    by (simp add: markAsDelivered_eq o_def)
  show "snd (markAsDelivered t1 ids (snd (markAsDelivered t1 ids d))) =
      snd (markAsDelivered t1 ids d)"
    by (simp add: markAsDelivered_eq o_def)
  show "(snd (markAsDelivered t2 ids (snd (markAsDelivered t1 ids d))) =
        snd (markAsDelivered t1 ids d)) =
     (t2 = t1 \<or> filter (\<lambda>m. id_col m \<in> set ids) (messages d) = [])"
    by (rule markAsDelivered_same)
  show "markAsDelivered t1 [] d = (Inr 0, d)"
    by (simp add: markAsDelivered_def)
qed

theorem C2_markAsDelivered_twice_witness:
  "fst (markAsDelivered 20 [1] (snd (markAsDelivered 10 [1] hello_mailbox))) = Inr 1 \<and>
   snd (markAsDelivered 20 [1] (snd (markAsDelivered 10 [1] hello_mailbox))) =
     hello_mailbox\<lparr>messages := [hello_row\<lparr>is_delivered := True, delivered_at := Some 20\<rparr>]\<rparr> \<and>
   snd (markAsDelivered 20 [1] (snd (markAsDelivered 10 [1] hello_mailbox))) \<noteq>
     snd (markAsDelivered 10 [1] hello_mailbox) \<and>
   snd (markAsDelivered 20 [99] (snd (markAsDelivered 10 [99] hello_mailbox))) =
     snd (markAsDelivered 10 [99] hello_mailbox)"
proof -
  have m: "messages hello_mailbox = [hello_row]" and i: "id_col hello_row = 1"
    by (simp_all add: hello_mailbox_def hello_row_def)
  note one = C2_markAsDelivered_twice [where ?t2.0 = 20 and ids = "[1]" and ?t1.0 = 10
      and d = hello_mailbox]
  note other = C2_markAsDelivered_twice [where ?t2.0 = 20 and ids = "[99]" and ?t1.0 = 10
      and d = hello_mailbox]
  have count: "fst (markAsDelivered 20 [1] (snd (markAsDelivered 10 [1] hello_mailbox))) = Inr 1"
    by (subst one [THEN conjunct1]) (simp add: markAsDelivered_eq m i)
  have "(snd (markAsDelivered 20 [1] (snd (markAsDelivered 10 [1] hello_mailbox))) =
         snd (markAsDelivered 10 [1] hello_mailbox)) =
        ((20::nat) = 10 \<or> filter (\<lambda>m. id_col m \<in> set [1]) (messages hello_mailbox) = [])"
    using one by (elim conjE)
  also have "\<dots> = False"
    by (simp add: m i)
  finally have differ: "snd (markAsDelivered 20 [1] (snd (markAsDelivered 10 [1] hello_mailbox))) \<noteq>
     snd (markAsDelivered 10 [1] hello_mailbox)"
    by simp
  have "(snd (markAsDelivered 20 [99] (snd (markAsDelivered 10 [99] hello_mailbox))) =
         snd (markAsDelivered 10 [99] hello_mailbox)) =
        ((20::nat) = 10 \<or> filter (\<lambda>m. id_col m \<in> set [99]) (messages hello_mailbox) = [])"
    using other by (elim conjE)
  also have "\<dots> = True"
    by (simp add: m i)
  finally have same: "snd (markAsDelivered 20 [99] (snd (markAsDelivered 10 [99] hello_mailbox))) =
     snd (markAsDelivered 10 [99] hello_mailbox)"
    by simp
  have state: "snd (markAsDelivered 20 [1] (snd (markAsDelivered 10 [1] hello_mailbox))) =
     hello_mailbox\<lparr>messages := [hello_row\<lparr>is_delivered := True, delivered_at := Some 20\<rparr>]\<rparr>"
    by (simp add: markAsDelivered_eq m i)
  from count state differ same show ?thesis
    by (intro conjI)
qed

subsection \<open>Fetching the undelivered rows\<close>

text \<open>
  C7, as stated, fails: the fetch orders by the \<open>created_at\<close> value the database clock
  gave each row, not by the order of the inserts. Three messages for user 2 are stored
  one after the other into the empty mailbox, and all three inserts succeed; the clock
  reads 10 for the first, 9 for the second and 30 for the third. The fetch returns the
  second before the first.
\<close>

theorem C7_counterexample:
  "map encrypted_content
     (getUndeliveredMessages 2
        (snd (storeMessage 30 3 2 ''m3''
               (snd (storeMessage 9 1 2 ''m2'' (snd (storeMessage 10 3 2 ''m1'' empty_mailbox))))))) =
     [''m2'', ''m1'', ''m3''] \<and>
   isl (fst (storeMessage 10 3 2 ''m1'' empty_mailbox)) = False \<and>
   isl (fst (storeMessage 9 1 2 ''m2'' (snd (storeMessage 10 3 2 ''m1'' empty_mailbox)))) = False \<and>
   isl (fst (storeMessage 30 3 2 ''m3''
               (snd (storeMessage 9 1 2 ''m2'' (snd (storeMessage 10 3 2 ''m1'' empty_mailbox)))))) =
     False"
  by (simp add: storeMessage_def int4_def Let_def empty_mailbox_def new_row_def
      getUndeliveredMessages_def)

text \<open>
  C7, amended: \<open>getUndeliveredMessages u\<close> returns exactly the rows of recipient \<open>u\<close> that
  are not delivered, each once, sorted by \<open>created_at\<close> ascending. When three inserts for
  \<open>u\<close>, made one after the other, succeed with rows \<open>m1\<close>, \<open>m2\<close>, \<open>m3\<close>, and the
  creation times the database gave them increase strictly and are later than that of
  every undelivered row \<open>u\<close> already had, the fetch returns the old rows followed by
  \<open>m1\<close>, \<open>m2\<close>, \<open>m3\<close> in this order, and these carry the three contents and times.
\<close>

theorem C7_getUndeliveredMessages:
  "set (getUndeliveredMessages u d) =
     {m \<in> set (messages d). recipient_id m = u \<and> is_delivered m = False} \<and>
   mset (getUndeliveredMessages u d) =
     filter_mset (\<lambda>m. recipient_id m = u \<and> is_delivered m = False) (mset (messages d)) \<and>
   sorted (map created_at (getUndeliveredMessages u d)) \<and>
   (storeMessage t1 a1 u c1 d = (Inr m1, d1) \<and>
    storeMessage t2 a2 u c2 d1 = (Inr m2, d2) \<and>
    storeMessage t3 a3 u c3 d2 = (Inr m3, d3) \<and>
    (\<forall>m\<in>set (getUndeliveredMessages u d). created_at m < t1) \<and> t1 < t2 \<and> t2 < t3 \<longrightarrow>
      getUndeliveredMessages u d3 = getUndeliveredMessages u d @ [m1, m2, m3] \<and>
      map encrypted_content [m1, m2, m3] = [c1, c2, c3] \<and>
      map created_at [m1, m2, m3] = [t1, t2, t3] \<and>
      map sender_id [m1, m2, m3] = [a1, a2, a3])"
proof (intro conjI impI)
  show "set (getUndeliveredMessages u d) =
     {m \<in> set (messages d). recipient_id m = u \<and> is_delivered m = False}"
    by (auto simp: getUndeliveredMessages_def)
  show "mset (getUndeliveredMessages u d) =
     filter_mset (\<lambda>m. recipient_id m = u \<and> is_delivered m = False) (mset (messages d))"
    by (simp add: getUndeliveredMessages_def)
  show "sorted (map created_at (getUndeliveredMessages u d))"
    by (simp add: getUndeliveredMessages_def)
next
  assume h: "storeMessage t1 a1 u c1 d = (Inr m1, d1) \<and>
    storeMessage t2 a2 u c2 d1 = (Inr m2, d2) \<and>
    storeMessage t3 a3 u c3 d2 = (Inr m3, d3) \<and>
    (\<forall>m\<in>set (getUndeliveredMessages u d). created_at m < t1) \<and> t1 < t2 \<and> t2 < t3"
  then have s1: "storeMessage t1 a1 u c1 d = (Inr m1, d1)"
    and s2: "storeMessage t2 a2 u c2 d1 = (Inr m2, d2)"
    and s3: "storeMessage t3 a3 u c3 d2 = (Inr m3, d3)"
    by simp_all
  have m1: "m1 = new_row (messages_id_seq d) t1 a1 u c1"
    and m2: "m2 = new_row (messages_id_seq d1) t2 a2 u c2"
    and m3: "m3 = new_row (messages_id_seq d2) t3 a3 u c3"
    using storeMessage_Inr(1) [OF s1] storeMessage_Inr(1) [OF s2] storeMessage_Inr(1) [OF s3]
    by simp_all
  have c1: "created_at m1 = t1" and c2: "created_at m2 = t2"
    by (simp_all add: m1 m2 new_row_def)
  have g1: "getUndeliveredMessages u d1 = getUndeliveredMessages u d @ [m1]"
    using s1 h by (intro getUndelivered_store) (auto intro: less_imp_le)
  have g2: "getUndeliveredMessages u d2 = getUndeliveredMessages u d1 @ [m2]"
    using s2 h by (intro getUndelivered_store) (auto simp: g1 c1)
  have g3: "getUndeliveredMessages u d3 = getUndeliveredMessages u d2 @ [m3]"
    using s3 h by (intro getUndelivered_store) (auto simp: g1 g2 c1 c2)
  show "getUndeliveredMessages u d3 = getUndeliveredMessages u d @ [m1, m2, m3]"
    by (simp add: g3 g2 g1)
  show "map encrypted_content [m1, m2, m3] = [c1, c2, c3]"
    by (simp add: m1 m2 m3 new_row_def)
  show "map created_at [m1, m2, m3] = [t1, t2, t3]"
    by (simp add: m1 m2 m3 new_row_def)
  show "map sender_id [m1, m2, m3] = [a1, a2, a3]"
    by (simp add: m1 m2 m3 new_row_def)
qed

theorem C7_getUndeliveredMessages_witness:
  "map encrypted_content
     (getUndeliveredMessages 2
        (snd (storeMessage 30 3 2 ''m3''
               (snd (storeMessage 20 1 2 ''m2'' (snd (storeMessage 10 3 2 ''m1'' hello_mailbox))))))) =
     [''hello'', ''m1'', ''m2'', ''m3'']"
proof -
  let ?d1 = "snd (storeMessage 10 3 2 ''m1'' hello_mailbox)"
  let ?d2 = "snd (storeMessage 20 1 2 ''m2'' ?d1)"
  let ?d3 = "snd (storeMessage 30 3 2 ''m3'' ?d2)"
  have g: "getUndeliveredMessages 2 hello_mailbox = [hello_row]"
    by (simp add: getUndeliveredMessages_def hello_mailbox_def hello_row_def)
  have s1: "storeMessage 10 3 2 ''m1'' hello_mailbox = (Inr (new_row 2 10 3 2 ''m1''), ?d1)"
    by (simp add: storeMessage_def int4_def Let_def hello_mailbox_def)
  have s2: "storeMessage 20 1 2 ''m2'' ?d1 = (Inr (new_row 3 20 1 2 ''m2''), ?d2)"
    by (simp add: storeMessage_def int4_def Let_def hello_mailbox_def)
  have s3: "storeMessage 30 3 2 ''m3'' ?d2 = (Inr (new_row 4 30 3 2 ''m3''), ?d3)"
    by (simp add: storeMessage_def int4_def Let_def hello_mailbox_def)
  have old: "\<forall>m\<in>set (getUndeliveredMessages 2 hello_mailbox). created_at m < 10"
    by (simp add: g hello_row_def)
  from C7_getUndeliveredMessages [where u = 2 and d = hello_mailbox
      and ?t1.0 = 10 and ?a1.0 = 3 and ?c1.0 = "''m1''" and ?m1.0 = "new_row 2 10 3 2 ''m1''"
      and ?d1.0 = ?d1
      and ?t2.0 = 20 and ?a2.0 = 1 and ?c2.0 = "''m2''" and ?m2.0 = "new_row 3 20 1 2 ''m2''"
      and ?d2.0 = ?d2
      and ?t3.0 = 30 and ?a3.0 = 3 and ?c3.0 = "''m3''" and ?m3.0 = "new_row 4 30 3 2 ''m3''"
      and ?d3.0 = ?d3] s1 s2 s3 old
  show ?thesis
    by (simp add: g hello_row_def new_row_def)
qed

subsection \<open>Marking read\<close>

text \<open>
  C8: the UPDATE of \<open>markAsRead\<close> assigns \<open>is_read\<close> and \<open>read_at\<close>, which the table of
  \<open>schema.sql\<close> does not have, so on the mailbox holding "hello" (row 1, for recipient 2)
  the call is rejected for another user (3) and for the recipient (2) alike, and the
  controller answers 500.
\<close>

theorem C8_markAsRead_rejected:
  "markAsRead 20 [1] 3 hello_mailbox = (Inl (Undefined_column ''is_read''), hello_mailbox) \<and>
   markAsRead 20 [1] 2 hello_mailbox = (Inl (Undefined_column ''is_read''), hello_mailbox) \<and>
   fst (markMessagesAsRead 20 3 (Some [1]) hello_waiting) =
     (500, Failure_body ''Failed to mark messages as read'')"
  by (simp add: markAsRead_eq markMessagesAsRead_def call_markAsRead_def)

section \<open>The relay statements\<close>

lemma find_ws_None: "w \<notin> ws ` set cs \<Longrightarrow> find (\<lambda>client. ws client = w) cs = None"
  by (auto simp: find_None_iff)

lemma find_userId_None: "u \<notin> userId ` set cs \<Longrightarrow> find (\<lambda>client. userId client = u) cs = None"
  by (auto simp: find_None_iff)

lemma fold_ws_send:
  "fold (\<lambda>client. ws_send (ws client) (F client)) cs s =
     s\<lparr>trace := trace s @ map (\<lambda>client. Ws_send (ws client) (F client)) cs\<rparr>"
  by (induction cs arbitrary: s) (simp_all add: ws_send_def emit_def)

lemma broadcastPresence_eq:
  "broadcastPresence uid status s =
     s\<lparr>trace := trace s @ map (\<lambda>client. Ws_send (ws client) (Presence_frame uid status)) (clients s)\<rparr>"
  unfolding broadcastPresence_def by (rule fold_ws_send)

subsection \<open>Frames from a socket that is not registered\<close>

text \<open>
  C10: when the socket is in no entry of \<open>clients\<close>, \<open>handleSignal\<close> and \<open>handleMessage\<close>
  (also when reached through the \<open>message\<close> listener) send the one frame
  \<open>{type: 'error', payload: {message: 'Not authenticated'}}\<close> on that socket and do nothing
  else: the registry, the presence store and the mailbox are the same, nothing is sent to
  any other socket and no \<open>MessageModel\<close> call is made.
\<close>

theorem C10_not_authenticated:
  "w \<notin> ws ` set (clients s) \<longrightarrow>
     handleSignal w sp s = s\<lparr>trace := trace s @ [Ws_send w (Error_frame ''Not authenticated'')]\<rparr> \<and>
     handleMessage now w cp s = s\<lparr>trace := trace s @ [Ws_send w (Error_frame ''Not authenticated'')]\<rparr> \<and>
     on_message verifyToken now w (Some (In_signal sp)) s = handleSignal w sp s \<and>
     on_message verifyToken now w (Some (In_message cp)) s = handleMessage now w cp s \<and>
     clients (handleSignal w sp s) = clients s \<and> redis (handleSignal w sp s) = redis s \<and>
     db (handleSignal w sp s) = db s \<and>
     clients (handleMessage now w cp s) = clients s \<and> redis (handleMessage now w cp s) = redis s \<and>
     db (handleMessage now w cp s) = db s"
  by (simp add: handleSignal_def handleMessage_def on_message_def find_ws_None ws_send_def emit_def)

theorem C10_not_authenticated_witness:
  "handleSignal 20 offer_to_2 one_online =
     one_online\<lparr>trace := [Ws_send 20 (Error_frame ''Not authenticated'')]\<rparr> \<and>
   handleMessage 7 20 hello_to_2 one_online =
     one_online\<lparr>trace := [Ws_send 20 (Error_frame ''Not authenticated'')]\<rparr>"
  using C10_not_authenticated [where w = 20 and s = one_online and sp = offer_to_2 and now = 7
      and cp = hello_to_2]
  by (simp add: one_online_def)

subsection \<open>A signal frame for a recipient who is not connected\<close>

text \<open>
  C4, as stated, fails: user 1 is connected on socket 10 and sends an offer for user 2,
  who is not connected. \<open>handleSignal\<close> stores no row; it answers the sender with the error
  frame "Recipient is offline".
\<close>

theorem C4_counterexample:
  "messages (db (handleSignal 10 offer_to_2 one_online)) = [] \<and>
   trace (handleSignal 10 offer_to_2 one_online) = [Ws_send 10 (Error_frame ''Recipient is offline'')]"
  by (simp add: handleSignal_def one_online_def offer_to_2_def empty_mailbox_def ws_send_def emit_def)

text \<open>
  C4, amended: for a signal frame from a registered socket whose recipient has no entry in
  \<open>clients\<close>, whatever its subtype, \<open>handleSignal\<close> stores nothing and changes no state;
  it sends the one error frame "Recipient is offline" back to the sender.
\<close>

theorem C4_handleSignal_offline:
  "w \<in> ws ` set (clients s) \<and> recipient sp \<notin> userId ` set (clients s) \<longrightarrow>
     handleSignal w sp s = s\<lparr>trace := trace s @ [Ws_send w (Error_frame ''Recipient is offline'')]\<rparr> \<and>
     db (handleSignal w sp s) = db s"
proof (intro impI)
  assume h: "w \<in> ws ` set (clients s) \<and> recipient sp \<notin> userId ` set (clients s)"
  then obtain c where "find (\<lambda>client. ws client = w) (clients s) = Some c"
    by (cases "find (\<lambda>client. ws client = w) (clients s)") (auto simp: find_None_iff)
  with h show "handleSignal w sp s = s\<lparr>trace := trace s @ [Ws_send w (Error_frame ''Recipient is offline'')]\<rparr> \<and>
     db (handleSignal w sp s) = db s"
    by (simp add: handleSignal_def find_userId_None ws_send_def emit_def)
qed

theorem C4_handleSignal_offline_witness:
  "handleSignal 10 offer_to_2 one_online =
     one_online\<lparr>trace := [Ws_send 10 (Error_frame ''Recipient is offline'')]\<rparr> \<and>
   handleSignal 10 candidate_to_2 one_online =
     one_online\<lparr>trace := [Ws_send 10 (Error_frame ''Recipient is offline'')]\<rparr>"
  using C4_handleSignal_offline [where w = 10 and s = one_online and sp = offer_to_2]
    C4_handleSignal_offline [where w = 10 and s = one_online and sp = candidate_to_2]
  by (simp add: one_online_def offer_to_2_def candidate_to_2_def)

subsection \<open>An ICE candidate sent over HTTP to a recipient who is not connected\<close>

text \<open>
  C1, as stated, fails: user 1 posts an ICE candidate for user 2, who is not connected.
  Nothing is stored, but the response is 202 "Recipient offline, signal queued for
  delivery", the response of a queued signal, and not an error.
\<close>

theorem C1_counterexample:
  "sendSignal example_stringify 20 1 candidate_to_2 one_online =
     ((202, Message_body ''Recipient offline, signal queued for delivery''), one_online)"
  by (simp add: sendSignal_def candidate_to_2_def one_online_def)

text \<open>
  C1, amended: for a request that passes validation (recipient not 0, data truthy) with
  type \<open>ice-candidate\<close> and a recipient who has no entry in \<open>clients\<close>, \<open>sendSignal\<close>
  stores nothing and changes no state, and answers 202 with the message of a queued
  signal.
\<close>

theorem C1_sendSignal_candidate_offline:
  "type_field sd = ''ice-candidate'' \<and> recipient sd \<noteq> 0 \<and> truthy (data sd) \<and>
   recipient sd \<notin> userId ` set (clients s) \<longrightarrow>
     sendSignal stringify now senderId sd s =
       ((202, Message_body ''Recipient offline, signal queued for delivery''), s)"
  by (simp add: sendSignal_def find_userId_None)

theorem C1_sendSignal_candidate_offline_witness:
  "fst (sendSignal example_stringify 20 1 candidate_to_2 one_online) =
     (202, Message_body ''Recipient offline, signal queued for delivery'') \<and>
   messages (db (snd (sendSignal example_stringify 20 1 candidate_to_2 one_online))) = []"
  using C1_sendSignal_candidate_offline [where sd = candidate_to_2 and s = one_online
      and stringify = example_stringify and now = 20 and senderId = 1]
  by (simp add: candidate_to_2_def one_online_def empty_mailbox_def)

subsection \<open>Disconnecting\<close>

lemma handleDisconnect_states_Some:
  "find (\<lambda>client. ws client = w) (clients s) = Some c \<Longrightarrow>
   handleDisconnect_states w s =
     [s, redis_set (presence_key (userId c)) ''offline'' s,
      clients_remove w (redis_set (presence_key (userId c)) ''offline'' s),
      broadcastPresence (userId c) ''offline''
        (clients_remove w (redis_set (presence_key (userId c)) ''offline'' s))]"
  by (simp add: handleDisconnect_states_def Let_def)

lemma handleDisconnect_states_None:
  "find (\<lambda>client. ws client = w) (clients s) = None \<Longrightarrow> handleDisconnect_states w s = [s]"
  by (simp add: handleDisconnect_states_def)

lemma ws_not_in_unregister: "w \<notin> ws ` set (unregister w cs)"
  by (auto simp: unregister_def)

text \<open>
  C3, as stated, fails: users 1 and 3 are connected and socket 10 (user 1) disconnects.
  After the first statement of \<open>handleDisconnect\<close> presence of user 1 is already
  \<open>offline\<close> while socket 10 is still in \<open>clients\<close>; the Redis write comes before the
  removal.
\<close>

theorem C3_counterexample:
  "redis_get (presence_key 1) (handleDisconnect_states 10 two_online ! 1) = Some ''offline'' \<and>
   clients (handleDisconnect_states 10 two_online ! 1) =
     [\<lparr>userId = 1, ws = 10\<rparr>, \<lparr>userId = 3, ws = 30\<rparr>] \<and>
   trace (handleDisconnect 10 two_online) =
     [Redis_set (presence_key 1) ''offline'', Clients_remove 10,
      Ws_send 30 (Presence_frame 1 ''offline'')]"
  by (simp add: handleDisconnect_def handleDisconnect_states_def two_online_def Let_def
      redis_set_def redis_get_def clients_remove_def unregister_def emit_def broadcastPresence_eq)

text \<open>
  C3, amended: on a disconnect of a registered socket (a disconnect frame or the \<open>close\<close>
  event, both run \<open>handleDisconnect\<close>), \<open>handleDisconnect\<close> first writes
  presence \<open>offline\<close> for the user of the entry it found, then removes the socket's
  entries from \<open>clients\<close>, then sends presence \<open>offline\<close> to the clients that remain. So
  there is a state where presence is offline and the socket is still registered, and in
  every state of the handler where the socket is no longer registered presence is
  already offline.
\<close>

theorem C3_handleDisconnect_order:
  "find (\<lambda>client. ws client = w) (clients s) = Some c \<longrightarrow>
     on_message verifyToken now w (Some In_disconnect) s = handleDisconnect w s \<and>
     length (handleDisconnect_states w s) = 4 \<and>
     handleDisconnect_states w s ! 0 = s \<and>
     clients (handleDisconnect_states w s ! 1) = clients s \<and>
     redis_get (presence_key (userId c)) (handleDisconnect_states w s ! 1) = Some ''offline'' \<and>
     clients (handleDisconnect_states w s ! 2) = unregister w (clients s) \<and>
     redis_get (presence_key (userId c)) (handleDisconnect_states w s ! 2) = Some ''offline'' \<and>
     handleDisconnect_states w s ! 3 = handleDisconnect w s \<and>
     clients (handleDisconnect w s) = unregister w (clients s) \<and>
     w \<notin> ws ` set (clients (handleDisconnect w s)) \<and>
     redis_get (presence_key (userId c)) (handleDisconnect w s) = Some ''offline'' \<and>
     trace (handleDisconnect w s) =
       trace s @ [Redis_set (presence_key (userId c)) ''offline'', Clients_remove w] @
       map (\<lambda>client. Ws_send (ws client) (Presence_frame (userId c) ''offline''))
         (unregister w (clients s)) \<and>
     (\<forall>s' \<in> set (handleDisconnect_states w s).
        w \<notin> ws ` set (clients s') \<longrightarrow> redis_get (presence_key (userId c)) s' = Some ''offline'')"
proof (intro impI)
  assume f: "find (\<lambda>client. ws client = w) (clients s) = Some c"
  then have "w \<in> ws ` set (clients s)"
    by (auto simp: find_Some_iff)
  with f show "on_message verifyToken now w (Some In_disconnect) s = handleDisconnect w s \<and>
     length (handleDisconnect_states w s) = 4 \<and>
     handleDisconnect_states w s ! 0 = s \<and>
     clients (handleDisconnect_states w s ! 1) = clients s \<and>
     redis_get (presence_key (userId c)) (handleDisconnect_states w s ! 1) = Some ''offline'' \<and>
     clients (handleDisconnect_states w s ! 2) = unregister w (clients s) \<and>
     redis_get (presence_key (userId c)) (handleDisconnect_states w s ! 2) = Some ''offline'' \<and>
     handleDisconnect_states w s ! 3 = handleDisconnect w s \<and>
     clients (handleDisconnect w s) = unregister w (clients s) \<and>
     w \<notin> ws ` set (clients (handleDisconnect w s)) \<and>
     redis_get (presence_key (userId c)) (handleDisconnect w s) = Some ''offline'' \<and>
     trace (handleDisconnect w s) =
       trace s @ [Redis_set (presence_key (userId c)) ''offline'', Clients_remove w] @
       map (\<lambda>client. Ws_send (ws client) (Presence_frame (userId c) ''offline''))
         (unregister w (clients s)) \<and>
     (\<forall>s' \<in> set (handleDisconnect_states w s).
        w \<notin> ws ` set (clients s') \<longrightarrow> redis_get (presence_key (userId c)) s' = Some ''offline'')"
    by (simp add: on_message_def handleDisconnect_def handleDisconnect_states_Some redis_set_def
        redis_get_def clients_remove_def emit_def broadcastPresence_eq ws_not_in_unregister)
qed

theorem C3_handleDisconnect_order_witness:
  "find (\<lambda>client. ws client = 10) (clients two_online) = Some \<lparr>userId = 1, ws = 10\<rparr> \<and>
   redis_get (presence_key 1) two_online = Some ''online'' \<and>
   redis_get (presence_key 1) (handleDisconnect_states 10 two_online ! 1) = Some ''offline'' \<and>
   map ws (clients (handleDisconnect_states 10 two_online ! 1)) = [10, 30] \<and>
   redis_get (presence_key 1) (handleDisconnect_states 10 two_online ! 2) = Some ''offline'' \<and>
   map ws (clients (handleDisconnect_states 10 two_online ! 2)) = [30] \<and>
   map ws (clients (handleDisconnect 10 two_online)) = [30]"
proof -
  have f: "find (\<lambda>client. ws client = 10) (clients two_online) = Some \<lparr>userId = 1, ws = 10\<rparr>"
    by (simp add: two_online_def)
  have c: "clients two_online = [\<lparr>userId = 1, ws = 10\<rparr>, \<lparr>userId = 3, ws = 30\<rparr>]"
    by (simp add: two_online_def)
  have r: "redis_get (presence_key 1) two_online = Some ''online''"
    by (simp add: two_online_def redis_get_def)
  from C3_handleDisconnect_order [where w = 10 and s = two_online
      and c = "\<lparr>userId = 1, ws = 10\<rparr>"] f r
  show ?thesis
    by (simp add: c unregister_def)
qed

subsection \<open>One entry per user\<close>

lemma distinct_register:
  "distinct (map userId cs) \<Longrightarrow> distinct (map userId (register u w cs))"
  by (auto simp: register_def distinct_map_filter)

lemma distinct_unregister:
  "distinct (map userId cs) \<Longrightarrow> distinct (map userId (unregister w cs))"
  by (simp add: unregister_def distinct_map_filter)

lemma clients_emit [simp]: "clients (emit e s) = clients s"
  by (simp add: emit_def)

lemma clients_ws_send [simp]: "clients (ws_send w f s) = clients s"
  by (simp add: ws_send_def)

lemma clients_ws_close [simp]: "clients (ws_close w s) = clients s"
  by (simp add: ws_close_def)

lemma clients_redis_set [simp]: "clients (redis_set k v s) = clients s"
  by (simp add: redis_set_def)

lemma clients_redis_expire [simp]: "clients (redis_expire k n s) = clients s"
  by (simp add: redis_expire_def split: option.splits)

lemma clients_broadcastPresence [simp]: "clients (broadcastPresence u st s) = clients s"
  by (simp add: broadcastPresence_eq)

lemma clients_call_storeMessage [simp]:
  "clients (snd (call_storeMessage now a b c s)) = clients s"
  by (simp add: call_storeMessage_def split: prod.splits)

lemma clients_call_getUndeliveredMessages [simp]:
  "clients (snd (call_getUndeliveredMessages u s)) = clients s"
  by (simp add: call_getUndeliveredMessages_def)

lemma clients_call_markAsDelivered [simp]:
  "clients (snd (call_markAsDelivered now ids s)) = clients s"
  by (simp add: call_markAsDelivered_def split: prod.splits)

lemma clients_call_markAsRead [simp]:
  "clients (snd (call_markAsRead now ids u s)) = clients s"
  by (simp add: call_markAsRead_def split: prod.splits)

lemma clients_clients_register [simp]:
  "clients (clients_register u w s) = register u w (clients s)"
  by (simp add: clients_register_def)

lemma clients_clients_remove [simp]:
  "clients (clients_remove w s) = unregister w (clients s)"
  by (simp add: clients_remove_def)

lemma snd_conv_pair: "f = (a, b) \<Longrightarrow> b = snd f"
  by simp

lemma clients_handleConnect:
  "clients (handleConnect verifyToken now w token s) =
     (case verifyToken token of None \<Rightarrow> clients s | Some uid \<Rightarrow> register uid w (clients s))"
proof (cases "verifyToken token")
  case None
  then show ?thesis by (simp add: handleConnect_def)
next
  case (Some uid)
  let ?s5 = "broadcastPresence uid ''online''
               (ws_send w (Connect_frame uid)
                 (redis_expire (presence_key uid) 60
                   (redis_set (presence_key uid) ''online'' (clients_register uid w s))))"
  let ?und = "getUndeliveredMessages uid (db ?s5)"
  let ?s6 = "snd (call_getUndeliveredMessages uid ?s5)"
  let ?s7 = "ws_send w (Pending_frame (map pending_of ?und)) ?s6"
  have c6: "clients ?s6 = register uid w (clients s)" by simp
  have c8: "clients (snd (call_markAsDelivered now (map id_col ?und) ?s7)) = register uid w (clients s)"
    by simp
  show ?thesis
  proof (cases "?und = []")
    case True
    with Some show ?thesis
      by (simp add: handleConnect_def Let_def call_getUndeliveredMessages_def)
  next
    case False
    obtain r s8 where m: "call_markAsDelivered now (map id_col ?und) ?s7 = (r, s8)"
      by (cases "call_markAsDelivered now (map id_col ?und) ?s7")
    with c8 have "clients s8 = register uid w (clients s)" by simp
    with Some False m show ?thesis
      by (cases r) (simp_all add: handleConnect_def Let_def call_getUndeliveredMessages_def)
  qed
qed

lemma clients_handleDisconnect_states:
  "s' \<in> set (handleDisconnect_states w s) \<Longrightarrow>
   clients s' = clients s \<or> clients s' = unregister w (clients s)"
  by (auto simp: handleDisconnect_states_def Let_def split: option.splits)

lemma clients_handleDisconnect:
  "clients (handleDisconnect w s) = clients s \<or>
   clients (handleDisconnect w s) = unregister w (clients s)"
  by (auto simp: handleDisconnect_def handleDisconnect_states_def Let_def split: option.splits)

lemma clients_handleSignal [simp]: "clients (handleSignal w p s) = clients s"
  by (simp add: handleSignal_def split: option.splits)

lemma clients_handleMessage [simp]: "clients (handleMessage now w p s) = clients s"
proof -
  have "clients (snd (call_storeMessage now a b c s)) = clients s" for a b c
    by simp
  then show ?thesis
    by (auto simp: handleMessage_def split: option.splits prod.splits sum.splits
        dest!: snd_conv_pair)
qed

lemma clients_fold_heartbeat:
  "clients (fold (\<lambda>client s'. redis_expire (presence_key (userId client)) 60
                        (redis_set (presence_key (userId client)) ''online'' s')) cs s) = clients s"
  by (induction cs arbitrary: s) simp_all

lemma clients_presenceHeartbeat [simp]: "clients (presenceHeartbeat s) = clients s"
  by (simp add: presenceHeartbeat_def clients_fold_heartbeat)

lemma clients_sendSignal [simp]: "clients (snd (sendSignal stringify now a sd s)) = clients s"
proof -
  have "clients (snd (call_storeMessage now a b c s)) = clients s" for b c
    by simp
  then show ?thesis
    by (auto simp: sendSignal_def split: option.splits prod.splits sum.splits
        dest!: snd_conv_pair)
qed

lemma clients_getPendingSignals [simp]: "clients (snd (getPendingSignals parse now u s)) = clients s"
proof -
  have "clients (snd (call_markAsDelivered now ids (snd (call_getUndeliveredMessages u s)))) = clients s" for ids
    by simp
  then show ?thesis
    by (auto simp: getPendingSignals_def Let_def call_getUndeliveredMessages_def
        split: prod.splits sum.splits dest!: snd_conv_pair)
qed

lemma clients_getOfflineMessages [simp]: "clients (snd (getOfflineMessages now u s)) = clients s"
proof -
  have "clients (snd (call_markAsDelivered now ids (snd (call_getUndeliveredMessages u s)))) = clients s" for ids
    by simp
  then show ?thesis
    by (auto simp: getOfflineMessages_def Let_def call_getUndeliveredMessages_def
        split: prod.splits sum.splits dest!: snd_conv_pair)
qed

lemma clients_markMessagesAsRead [simp]:
  "clients (snd (markMessagesAsRead now u ids s)) = clients s"
proof -
  have "clients (snd (call_markAsRead now is u s)) = clients s" for "is"
    by simp
  then show ?thesis
    by (auto simp: markMessagesAsRead_def split: option.splits prod.splits sum.splits
        dest!: snd_conv_pair)
qed

lemma clients_on_message:
  "distinct (map userId (clients s)) \<Longrightarrow>
   distinct (map userId (clients (on_message verifyToken now w msg s)))"
proof (cases msg)
  case None
  then show "distinct (map userId (clients s)) \<Longrightarrow> ?thesis" by (simp add: on_message_def)
next
  case (Some m)
  assume d: "distinct (map userId (clients s))"
  show ?thesis
  proof (cases m)
    case (In_connect token)
    with Some d show ?thesis
      by (simp add: on_message_def clients_handleConnect distinct_register split: option.splits)
  next
    case In_disconnect
    with Some d clients_handleDisconnect [of w s] show ?thesis
      by (auto simp: on_message_def distinct_unregister)
  next
    case (In_signal p)
    with Some d show ?thesis by (simp add: on_message_def)
  next
    case (In_message p)
    with Some d show ?thesis by (simp add: on_message_def)
  next
    case (In_other t)
    with Some d show ?thesis by (simp add: on_message_def)
  qed
qed

lemma reachable_distinct: "reachable s \<Longrightarrow> distinct (map userId (clients s))"
proof (induction rule: reachable.induct)
  case (start s)
  then show ?case by simp
next
  case (message s verifyToken now w msg)
  then show ?case by (simp add: clients_on_message)
next
  case (close s s' w)
  with clients_handleDisconnect_states [of s' w s] show ?case
    by (auto simp: distinct_unregister)
qed simp_all

text \<open>
  C5: in every state the server reaches, the user ids of \<open>clients\<close> are pairwise
  distinct. A connect with a valid token replaces \<open>clients\<close> by \<open>register\<close>, which drops
  every entry of that user and appends the new one; registering a user twice leaves the
  other entries and, for that user, exactly the second entry. \<open>register\<close> and
  \<open>unregister\<close> keep user ids distinct.
\<close>

theorem C5_one_entry_per_peer:
  "(reachable s \<longrightarrow> distinct (map userId (clients s))) \<and>
   (verifyToken token = Some u \<longrightarrow>
      clients (handleConnect verifyToken now w token s) = register u w (clients s)) \<and>
   register u w (clients s) = filter (\<lambda>client. userId client \<noteq> u) (clients s) @ [\<lparr>userId = u, ws = w\<rparr>] \<and>
   register u w2 (register u w1 cs) = filter (\<lambda>client. userId client \<noteq> u) cs @ [\<lparr>userId = u, ws = w2\<rparr>] \<and>
   filter (\<lambda>client. userId client = u) (register u w2 (register u w1 cs)) = [\<lparr>userId = u, ws = w2\<rparr>] \<and>
   (distinct (map userId cs) \<longrightarrow>
      distinct (map userId (register u w cs)) \<and> distinct (map userId (unregister w cs)))"
proof -
  have e: "filter (\<lambda>client. userId client = u) (filter (\<lambda>client. userId client \<noteq> u) xs) = []" for xs
    by (induction xs) simp_all
  have twice: "register u w2 (register u w1 cs) =
      filter (\<lambda>client. userId client \<noteq> u) cs @ [\<lparr>userId = u, ws = w2\<rparr>]"
    by (simp add: register_def)
  have one: "filter (\<lambda>client. userId client = u) (register u w2 (register u w1 cs)) =
      [\<lparr>userId = u, ws = w2\<rparr>]"
    unfolding twice by (simp add: e)
  show ?thesis
    using twice one
    by (simp add: reachable_distinct clients_handleConnect distinct_register distinct_unregister)
      (simp add: register_def)
qed

theorem C5_one_entry_per_peer_witness:
  "reachable connect_twice \<and> clients connect_twice = [\<lparr>userId = 7, ws = 21\<rparr>] \<and>
   distinct (map userId (clients connect_twice))"
proof -
  have "reachable hello_waiting"
    by (rule reachable.start) (simp add: hello_waiting_def)
  then have r: "reachable connect_twice"
    unfolding connect_twice_def by (intro reachable.message)
  have c: "clients connect_twice = [\<lparr>userId = 7, ws = 21\<rparr>]"
    by (simp add: connect_twice_def on_message_def clients_handleConnect token_table_def
        register_def hello_waiting_def)
  from C5_one_entry_per_peer [where s = connect_twice] r c show ?thesis
    by simp
qed

subsection \<open>Connecting\<close>

lemma handleConnect_ok:
  assumes "verifyToken token = Some uid"
  shows "handleConnect verifyToken now w token s =
     s\<lparr>clients := register uid w (clients s),
       redis := (redis s)(presence_key uid := Some \<lparr>redis_value = ''online'', ttl = Some 60\<rparr>),
       db := snd (markAsDelivered now (map id_col (getUndeliveredMessages uid (db s))) (db s)),
       trace := trace s @
         [Clients_register uid w, Redis_set (presence_key uid) ''online'',
          Redis_expire (presence_key uid) 60, Ws_send w (Connect_frame uid)] @
         map (\<lambda>client. Ws_send (ws client) (Presence_frame uid ''online''))
           (register uid w (clients s)) @
         [Call_getUndeliveredMessages uid] @
         (if getUndeliveredMessages uid (db s) = [] then []
          else [Ws_send w (Pending_frame (map pending_of (getUndeliveredMessages uid (db s)))),
                Call_markAsDelivered (map id_col (getUndeliveredMessages uid (db s)))])\<rparr>"
proof (cases "getUndeliveredMessages uid (db s) = []")
  case True
  then have "snd (markAsDelivered now (map id_col (getUndeliveredMessages uid (db s))) (db s)) = db s"
    by (simp add: markAsDelivered_def)
  with True assms show ?thesis
    by (simp add: handleConnect_def Let_def clients_register_def redis_set_def
        redis_expire_def ws_send_def emit_def broadcastPresence_eq call_getUndeliveredMessages_def)
next
  case False
  with assms show ?thesis
    by (simp add: handleConnect_def Let_def clients_register_def redis_set_def
        redis_expire_def ws_send_def emit_def broadcastPresence_eq call_getUndeliveredMessages_def
        call_markAsDelivered_def markAsDelivered_eq)
qed

lemma getUndelivered_after_mark:
  "set (getUndeliveredMessages u d) \<subseteq> set und \<Longrightarrow>
   getUndeliveredMessages u (snd (markAsDelivered now (map id_col und) d)) = []"
proof -
  assume a: "set (getUndeliveredMessages u d) \<subseteq> set und"
  have "filter (\<lambda>m. recipient_id m = u \<and> is_delivered m = False)
          (messages (snd (markAsDelivered now (map id_col und) d))) = []"
    using a by (auto simp: getUndeliveredMessages_def markAsDelivered_eq filter_empty_conv)
  then show ?thesis
    by (simp add: getUndeliveredMessages_def)
qed

lemma getUndelivered_after_own_mark:
  "getUndeliveredMessages u (snd (markAsDelivered now (map id_col (getUndeliveredMessages u d)) d)) = []"
  by (rule getUndelivered_after_mark) simp

lemma settled_apply_op: "settled ids d \<Longrightarrow> settled ids (apply_op op d)"
proof (cases op)
  case (Op_storeMessage now a b c)
  assume "settled ids d"
  with Op_storeMessage show ?thesis
    by (auto simp: settled_def storeMessage_def Let_def new_row_def list_all_iff)
next
  case (Op_markAsDelivered now js)
  assume "settled ids d"
  with Op_markAsDelivered show ?thesis
    by (auto simp: settled_def markAsDelivered_eq list_all_iff)
next
  case (Op_markAsRead now js u)
  assume "settled ids d"
  with Op_markAsRead show ?thesis
    by (simp add: markAsRead_frame)
next
  case (Op_cleanupOldMessages now days)
  assume "settled ids d"
  with Op_cleanupOldMessages show ?thesis
    by (auto simp: settled_def cleanupOldMessages_def Let_def list_all_iff)
qed

lemma settled_apply_ops: "settled ids d \<Longrightarrow> settled ids (apply_ops ops d)"
  unfolding apply_ops_def
  by (induction ops arbitrary: d) (simp_all add: settled_apply_op)

lemma settled_fetch:
  "settled ids d \<Longrightarrow> m \<in> set (getUndeliveredMessages u d) \<Longrightarrow> id_col m \<notin> set ids"
  by (auto simp: settled_def getUndeliveredMessages_def list_all_iff)

lemma settled_after_mark:
  "primary_key d \<Longrightarrow> set und \<subseteq> set (messages d) \<Longrightarrow>
   settled (map id_col und) (snd (markAsDelivered now (map id_col und) d))"
  by (auto simp: settled_def primary_key_def markAsDelivered_eq list_all_iff)

lemma fetched_rows: "set (getUndeliveredMessages u d) \<subseteq> set (messages d)"
  by (auto simp: getUndeliveredMessages_def)

text \<open>
  C6: on a connect with a valid token for user \<open>uid\<close>, \<open>handleConnect\<close> issues, in this
  order: the registration of the socket, \<open>SET presence:uid online\<close> and
  \<open>EXPIRE presence:uid 60\<close>, the connect confirmation, a presence \<open>online\<close> frame to every
  registered client, the fetch of the undelivered rows of \<open>uid\<close>, and, when there are
  any, one frame with all of them on the new socket and then \<open>markAsDelivered\<close> with
  exactly their ids. Afterwards the socket is registered, presence is \<open>online\<close> with 60
  seconds to live, exactly the rows with a fetched id are marked, a fetch for \<open>uid\<close>
  returns nothing, and (ids being a primary key) no fetch for anyone after any further
  \<open>MessageModel\<close> calls returns a row with a fetched id.
\<close>

theorem C6_handleConnect:
  fixes s :: server and uid :: int
  assumes "verifyToken token = Some uid"
  defines "und \<equiv> getUndeliveredMessages uid (db s)"
  shows
   "on_message verifyToken now w (Some (In_connect token)) s =
      handleConnect verifyToken now w token s \<and>
    trace (handleConnect verifyToken now w token s) =
      trace s @
      [Clients_register uid w, Redis_set (presence_key uid) ''online'',
       Redis_expire (presence_key uid) 60, Ws_send w (Connect_frame uid)] @
      map (\<lambda>client. Ws_send (ws client) (Presence_frame uid ''online''))
        (register uid w (clients s)) @
      [Call_getUndeliveredMessages uid] @
      (if und = [] then []
       else [Ws_send w (Pending_frame (map pending_of und)), Call_markAsDelivered (map id_col und)]) \<and>
    clients (handleConnect verifyToken now w token s) = register uid w (clients s) \<and>
    redis (handleConnect verifyToken now w token s) (presence_key uid) =
      Some \<lparr>redis_value = ''online'', ttl = Some 60\<rparr> \<and>
    messages (db (handleConnect verifyToken now w token s)) =
      map (\<lambda>m. if id_col m \<in> id_col ` set und
                then m\<lparr>is_delivered := True, delivered_at := Some now\<rparr> else m)
        (messages (db s)) \<and>
    getUndeliveredMessages uid (db (handleConnect verifyToken now w token s)) = [] \<and>
    (primary_key (db s) \<longrightarrow>
       (\<forall>m \<in> set (getUndeliveredMessages u
                     (apply_ops ops (db (handleConnect verifyToken now w token s)))).
          id_col m \<notin> id_col ` set und))"
proof -
  have hc: "handleConnect verifyToken now w token s =
     s\<lparr>clients := register uid w (clients s),
       redis := (redis s)(presence_key uid := Some \<lparr>redis_value = ''online'', ttl = Some 60\<rparr>),
       db := snd (markAsDelivered now (map id_col (getUndeliveredMessages uid (db s))) (db s)),
       trace := trace s @
         [Clients_register uid w, Redis_set (presence_key uid) ''online'',
          Redis_expire (presence_key uid) 60, Ws_send w (Connect_frame uid)] @
         map (\<lambda>client. Ws_send (ws client) (Presence_frame uid ''online''))
           (register uid w (clients s)) @
         [Call_getUndeliveredMessages uid] @
         (if getUndeliveredMessages uid (db s) = [] then []
          else [Ws_send w (Pending_frame (map pending_of (getUndeliveredMessages uid (db s)))),
                Call_markAsDelivered (map id_col (getUndeliveredMessages uid (db s)))])\<rparr>"
    using assms(1) by (rule handleConnect_ok)
  have later: "id_col m \<notin> id_col ` set und"
    if pk: "primary_key (db s)"
      and m: "m \<in> set (getUndeliveredMessages u
                     (apply_ops ops (db (handleConnect verifyToken now w token s))))" for m
  proof -
    have "settled (map id_col und) (db (handleConnect verifyToken now w token s))"
      unfolding hc und_def using settled_after_mark [OF pk fetched_rows] by simp
    then have "settled (map id_col und) (apply_ops ops (db (handleConnect verifyToken now w token s)))"
      by (rule settled_apply_ops)
    from settled_fetch [OF this m] show ?thesis by simp
  qed
  have "messages (db (handleConnect verifyToken now w token s)) =
      map (\<lambda>m. if id_col m \<in> id_col ` set und
                then m\<lparr>is_delivered := True, delivered_at := Some now\<rparr> else m)
        (messages (db s))"
    by (simp add: hc und_def markAsDelivered_eq)
  moreover have "getUndeliveredMessages uid (db (handleConnect verifyToken now w token s)) = []"
    by (simp add: hc getUndelivered_after_own_mark)
  ultimately show ?thesis
    using later by (simp add: on_message_def) (simp add: hc und_def)
qed

lemma sort_key_Nil_iff: "(sort_key f xs = []) = (xs = [])"
  by (metis length_sort length_0_conv)

theorem C6_handleConnect_witness:
  "trace (handleConnect token_table 9 20 ''token-2'' hello_waiting) =
     [Clients_register 2 20, Redis_set (presence_key 2) ''online'',
      Redis_expire (presence_key 2) 60, Ws_send 20 (Connect_frame 2),
      Ws_send 20 (Presence_frame 2 ''online''), Call_getUndeliveredMessages 2,
      Ws_send 20 (Pending_frame [(1, 1, ''hello'', 5)]), Call_markAsDelivered [1]] \<and>
   messages (db (handleConnect token_table 9 20 ''token-2'' hello_waiting)) =
     [hello_row\<lparr>is_delivered := True, delivered_at := Some 9\<rparr>] \<and>
   getUndeliveredMessages 2 (db (handleConnect token_table 9 20 ''token-2'' hello_waiting)) = [] \<and>
   id_col hello_row \<notin> id_col ` set (getUndeliveredMessages 2
      (apply_ops [Op_storeMessage 11 3 2 ''later'']
         (db (handleConnect token_table 9 20 ''token-2'' hello_waiting))))"
proof -
  have t: "token_table ''token-2'' = Some 2"
    by (simp add: token_table_def)
  have g: "getUndeliveredMessages 2 (db hello_waiting) = [hello_row]"
    by (simp add: getUndeliveredMessages_def hello_waiting_def hello_mailbox_def hello_row_def)
  have pk: "primary_key (db hello_waiting)"
    by (simp add: primary_key_def hello_waiting_def hello_mailbox_def hello_row_def)
  have r: "register 2 20 (clients hello_waiting) = [\<lparr>userId = 2, ws = 20\<rparr>]"
    by (simp add: register_def hello_waiting_def)
  have m: "messages (db hello_waiting) = [hello_row]"
    by (simp add: hello_waiting_def hello_mailbox_def)
  have e: "trace hello_waiting = []"
    by (simp add: hello_waiting_def)
  note th = C6_handleConnect [where verifyToken = token_table and token = "''token-2''" and uid = 2
      and s = hello_waiting and now = 9 and w = 20 and u = 2
      and ops = "[Op_storeMessage 11 3 2 ''later'']", OF t, unfolded g r m e]
  with pk show ?thesis
    by (auto simp: pending_of_def hello_row_def)
qed

subsection \<open>The two drain endpoints\<close>

lemma getOfflineMessages_eq:
  "getOfflineMessages now uid s =
     ((200, Messages_body (map pending_of (getUndeliveredMessages uid (db s)))),
      s\<lparr>db := snd (markAsDelivered now (map id_col (getUndeliveredMessages uid (db s))) (db s)),
        trace := trace s @ [Call_getUndeliveredMessages uid] @
          (if getUndeliveredMessages uid (db s) = [] then []
           else [Call_markAsDelivered (map id_col (getUndeliveredMessages uid (db s)))])\<rparr>)"
proof (cases "getUndeliveredMessages uid (db s) = []")
  case True
  then have "snd (markAsDelivered now (map id_col (getUndeliveredMessages uid (db s))) (db s)) = db s"
    by (simp add: markAsDelivered_def)
  with True show ?thesis
    by (simp add: getOfflineMessages_def call_getUndeliveredMessages_def emit_def)
next
  case False
  then show ?thesis
    by (simp add: getOfflineMessages_def call_getUndeliveredMessages_def emit_def
        call_markAsDelivered_def markAsDelivered_eq)
qed

lemma getPendingSignals_nothing:
  "getUndeliveredMessages uid (db s) = [] \<Longrightarrow>
   getPendingSignals parse now uid s =
     ((200, Signals_body []), s\<lparr>trace := trace s @ [Call_getUndeliveredMessages uid]\<rparr>)"
  by (simp add: getPendingSignals_def call_getUndeliveredMessages_def emit_def)

text \<open>
  C9: \<open>getOfflineMessages\<close> returns every undelivered row of the user, whatever its
  content, and marks exactly the rows with these ids delivered; afterwards every row of
  the user is delivered, so \<open>getPendingSignals\<close> for the same user, called next, finds
  no undelivered row, returns an empty signal list and marks nothing.
\<close>

theorem C9_shared_pool:
  fixes s :: server and uid :: int and now :: timestamp
  defines "s1 \<equiv> snd (getOfflineMessages now uid s)"
  shows
   "fst (getOfflineMessages now uid s) =
      (200, Messages_body (map pending_of (getUndeliveredMessages uid (db s)))) \<and>
    messages (db s1) =
      map (\<lambda>m. if id_col m \<in> id_col ` set (getUndeliveredMessages uid (db s))
                then m\<lparr>is_delivered := True, delivered_at := Some now\<rparr> else m)
        (messages (db s)) \<and>
    list_all (\<lambda>m. recipient_id m \<noteq> uid \<or> is_delivered m) (messages (db s1)) \<and>
    getUndeliveredMessages uid (db s1) = [] \<and>
    getPendingSignals parse now' uid s1 =
      ((200, Signals_body []), s1\<lparr>trace := trace s1 @ [Call_getUndeliveredMessages uid]\<rparr>)"
proof -
  have d1: "db s1 = snd (markAsDelivered now (map id_col (getUndeliveredMessages uid (db s))) (db s))"
    by (simp add: s1_def getOfflineMessages_eq)
  have g: "getUndeliveredMessages uid (db s1) = []"
    unfolding d1 by (rule getUndelivered_after_own_mark)
  have "set (filter (\<lambda>m. recipient_id m = uid \<and> is_delivered m = False) (messages (db s1))) = {}"
    using g by (simp add: getUndeliveredMessages_def sort_key_Nil_iff del: set_filter)
  then have all: "list_all (\<lambda>m. recipient_id m \<noteq> uid \<or> is_delivered m) (messages (db s1))"
    by (auto simp: list_all_iff)
  show ?thesis
    using g all
    by (simp add: getPendingSignals_nothing) (simp add: d1 markAsDelivered_eq getOfflineMessages_eq)
qed

theorem C9_shared_pool_witness:
  "fst (getPendingSignals example_parse 8 2 mixed_waiting) =
     (200, Signals_body [(2, 3, Some (JStr ''offer''), Some (JStr ''sdp''), 6)]) \<and>
   fst (getOfflineMessages 7 2 mixed_waiting) =
     (200, Messages_body [(1, 1, ''hello'', 5), (2, 3, ''{signal}'', 6)]) \<and>
   fst (getPendingSignals example_parse 8 2 (snd (getOfflineMessages 7 2 mixed_waiting))) =
     (200, Signals_body [])"
proof -
  have g: "getUndeliveredMessages 2 (db mixed_waiting) = [hello_row, offer_row]"
    by (simp add: getUndeliveredMessages_def mixed_waiting_def hello_row_def offer_row_def)
  have p: "fst (getPendingSignals example_parse 8 2 mixed_waiting) =
     (200, Signals_body [(2, 3, Some (JStr ''offer''), Some (JStr ''sdp''), 6)])"
    by (simp add: getPendingSignals_def call_getUndeliveredMessages_def g map_filter_simps
        signal_of_def example_parse_def hello_row_def offer_row_def call_markAsDelivered_def
        markAsDelivered_eq)
  from C9_shared_pool [where now = 7 and uid = 2 and s = mixed_waiting
      and parse = example_parse and now' = 8] p show ?thesis
    by (simp add: g pending_of_def hello_row_def offer_row_def)
qed

end
